theory Spec2Isabelle
  imports Main
begin

section \<open>JavaScript values\<close>

text \<open>
  The bodies exchanged with the remote service, and the values the client puts into query
  parameters, are JavaScript values: what \<^verbatim>\<open>JSON.parse\<close> yields, a plain string when the
  body is not JSON, and \<^verbatim>\<open>undefined\<close>. Numbers are modelled as integers (thread and
  breakpoint identifiers, frame indices, page offsets). The key list of \<open>JObj\<close> is the
  list of own properties of the object; a lookup takes the first entry of a key.
\<close>

datatype jsval =
    JUndefined
  | JNull
  | JBool bool
  | JNum int
  | JStr string
  | JArr "jsval list"
  | JObj "(string \<times> jsval) list"

text \<open>
  \<^verbatim>\<open>v?.k\<close> for a key \<open>k\<close> that no built-in prototype defines (\<^verbatim>\<open>fault\<close>,
  \<^verbatim>\<open>type\<close> and \<^verbatim>\<open>message\<close> are such keys): the own property of an object, and
  \<^verbatim>\<open>undefined\<close> on \<^verbatim>\<open>undefined\<close>, \<^verbatim>\<open>null\<close>, primitives and arrays.
\<close>

fun member :: "jsval \<Rightarrow> string \<Rightarrow> jsval" where
  "member (JObj kvs) k = (case map_of kvs k of Some v \<Rightarrow> v | None \<Rightarrow> JUndefined)"
| "member v k = JUndefined"

text \<open>
  The abstract operation \<^verbatim>\<open>ToString\<close>, which a computed property key and the argument of
  the \<^verbatim>\<open>Error\<close> constructor go through. The rendering of a number is the runtime's
  \<^verbatim>\<open>Number::toString\<close>, taken as the parameter \<open>ns\<close>. An array is joined with commas,
  \<^verbatim>\<open>undefined\<close> and \<^verbatim>\<open>null\<close> elements giving the empty string. A parsed object has
  no callable own property: it renders as \<^verbatim>\<open>[object Object]\<close> through the inherited
  \<^verbatim>\<open>toString\<close>, unless an own property \<^verbatim>\<open>toString\<close> hides that method, and then the
  conversion throws a \<^verbatim>\<open>TypeError\<close> (\<open>None\<close>).
\<close>

fun to_string :: "(int \<Rightarrow> string) \<Rightarrow> jsval \<Rightarrow> string option"
  and join_elems :: "(int \<Rightarrow> string) \<Rightarrow> jsval list \<Rightarrow> string option"
  and elem_string :: "(int \<Rightarrow> string) \<Rightarrow> jsval \<Rightarrow> string option"
where
  "to_string ns JUndefined = Some ''undefined''"
| "to_string ns JNull = Some ''null''"
| "to_string ns (JBool b) = Some (if b then ''true'' else ''false'')"
| "to_string ns (JNum n) = Some (ns n)"
| "to_string ns (JStr s) = Some s"
| "to_string ns (JArr xs) = join_elems ns xs"
| "to_string ns (JObj kvs) =
     (if map_of kvs ''toString'' = None then Some ''[object Object]'' else None)"
| "join_elems ns [] = Some []"
| "join_elems ns [x] = elem_string ns x"
| "join_elems ns (x # y # ys) =
     (case elem_string ns x of
        None \<Rightarrow> None
      | Some s \<Rightarrow>
          (case join_elems ns (y # ys) of
             None \<Rightarrow> None
           | Some r \<Rightarrow> Some (s @ '','' @ r)))"
| "elem_string ns JUndefined = Some []"
| "elem_string ns JNull = Some []"
| "elem_string ns v = to_string ns v"

text \<open>
  \<^verbatim>\<open>Number::toString\<close> on the integers of magnitude below \<open>10^21\<close>: the decimal digits,
  after a minus sign for a negative number.
\<close>

fun digits :: "nat \<Rightarrow> string" where
  "digits n =
     (if n < 10 then [''0123456789'' ! n]
      else digits (n div 10) @ [''0123456789'' ! (n mod 10)])"

declare digits.simps [simp del]

definition decimal :: "int \<Rightarrow> string" where
  "decimal i = (if i < 0 then ''-'' @ digits (nat (- i)) else digits (nat i))"

section \<open>The transport's data\<close>

record response =
  status :: int
  data :: jsval
  response_headers :: "(string \<times> string) list"

text \<open>
  An \<^verbatim>\<open>AxiosError\<close>: its message, and the response when the service answered (absent
  on a network failure).
\<close>

record axios_error =
  error_message :: string
  response :: "response option"

section \<open>Fault taxonomy\<close>

datatype fault_class =
    NotAuthorizedException
  | ClientIdRequiredException
  | DebuggerDisabledException
  | InvalidScriptPathException
  | InvalidScriptFileException
  | BreakpointNotFoundException
  | ScriptThreadNotFoundException
  | InvalidFrameIndexException

fun class_name :: "fault_class \<Rightarrow> string" where
  "class_name NotAuthorizedException = ''NotAuthorizedException''"
| "class_name ClientIdRequiredException = ''ClientIdRequiredException''"
| "class_name DebuggerDisabledException = ''DebuggerDisabledException''"
| "class_name InvalidScriptPathException = ''InvalidScriptPathException''"
| "class_name InvalidScriptFileException = ''InvalidScriptFileException''"
| "class_name BreakpointNotFoundException = ''BreakpointNotFoundException''"
| "class_name ScriptThreadNotFoundException = ''ScriptThreadNotFoundException''"
| "class_name InvalidFrameIndexException = ''InvalidFrameIndexException''"

text \<open>The own properties of the object literal \<^verbatim>\<open>Faults\<close>, in the order of the source.\<close>

definition Faults :: "(string \<times> fault_class) list" where
  "Faults =
    [(''NotAuthorizedException'', NotAuthorizedException),
     (''ClientIdRequiredException'', ClientIdRequiredException),
     (''DebuggerDisabledException'', DebuggerDisabledException),
     (''InvalidScriptPathException'', InvalidScriptPathException),
     (''InvalidScriptFileException'', InvalidScriptFileException),
     (''BreakpointNotFoundException'', BreakpointNotFoundException),
     (''ScriptThreadNotFoundException'', ScriptThreadNotFoundException),
     (''InvalidFrameIndexException'', InvalidFrameIndexException)]"

text \<open>
  What \<^verbatim>\<open>Faults[key]\<close> can evaluate to besides \<^verbatim>\<open>undefined\<close>. \<^verbatim>\<open>Faults\<close> is an
  object literal, so a key that is not an own property is looked up in
  \<^verbatim>\<open>Object.prototype\<close>: the function \<^verbatim>\<open>Object\<close> under \<^verbatim>\<open>constructor\<close>, built-in
  methods that are not constructors, and \<^verbatim>\<open>Object.prototype\<close> itself under the accessor
  \<^verbatim>\<open>__proto__\<close>.
\<close>

datatype property_value =
    FaultClass fault_class
  | ObjectConstructor
  | BuiltinMethod
  | ObjectPrototype

definition Object_prototype :: "(string \<times> property_value) list" where
  "Object_prototype =
    [(''constructor'', ObjectConstructor),
     (''__defineGetter__'', BuiltinMethod),
     (''__defineSetter__'', BuiltinMethod),
     (''hasOwnProperty'', BuiltinMethod),
     (''__lookupGetter__'', BuiltinMethod),
     (''__lookupSetter__'', BuiltinMethod),
     (''isPrototypeOf'', BuiltinMethod),
     (''propertyIsEnumerable'', BuiltinMethod),
     (''toString'', BuiltinMethod),
     (''valueOf'', BuiltinMethod),
     (''__proto__'', ObjectPrototype),
     (''toLocaleString'', BuiltinMethod)]"

definition Faults_get :: "string \<Rightarrow> property_value option" where
  "Faults_get key =
     (case map_of Faults key of
        Some c \<Rightarrow> Some (FaultClass c)
      | None \<Rightarrow> map_of Object_prototype key)"

section \<open>Settled promises\<close>

datatype type_error = NotAConstructor | CannotConvertToPrimitive

text \<open>
  What an operation can be rejected with: the transport's own error, an instance of a
  fault class with its \<^verbatim>\<open>message\<close> property (absent when the constructor got
  \<^verbatim>\<open>undefined\<close>), a \<^verbatim>\<open>TypeError\<close> thrown inside the interceptor, or the object that
  \<^verbatim>\<open>new Object(v)\<close> returns.
\<close>

datatype rejection =
    TransportError axios_error
  | FaultError fault_class "string option"
  | TypeError type_error
  | ObjectOf jsval

datatype 'a promise = Resolved 'a | Rejected rejection

section \<open>Fault translator\<close>

text \<open>
  \<^verbatim>\<open>new Fault(arg)\<close>. A fault class extends \<^verbatim>\<open>Error\<close> without a constructor of its own:
  the message is \<^verbatim>\<open>ToString(arg)\<close> unless \<open>arg\<close> is \<^verbatim>\<open>undefined\<close>. A value that is
  not a constructor makes \<^verbatim>\<open>new\<close> throw.
\<close>

fun construct :: "(int \<Rightarrow> string) \<Rightarrow> property_value \<Rightarrow> jsval \<Rightarrow> type_error + rejection" where
  "construct ns (FaultClass c) arg =
     (if arg = JUndefined then Inr (FaultError c None)
      else (case to_string ns arg of
              None \<Rightarrow> Inl CannotConvertToPrimitive
            | Some m \<Rightarrow> Inr (FaultError c (Some m))))"
| "construct ns ObjectConstructor arg = Inr (ObjectOf arg)"
| "construct ns BuiltinMethod arg = Inl NotAConstructor"
| "construct ns ObjectPrototype arg = Inl NotAConstructor"

text \<open>\<^verbatim>\<open>error.response?.data\<close>\<close>

definition response_data :: "axios_error \<Rightarrow> jsval" where
  "response_data error = (case response error of None \<Rightarrow> JUndefined | Some r \<Rightarrow> data r)"

text \<open>
  \<^verbatim>\<open>axiosErrorToFault\<close>. Every value \<^verbatim>\<open>Faults[key]\<close> can have is truthy, so
  \<^verbatim>\<open>!Fault\<close> holds exactly when the lookup gives \<^verbatim>\<open>undefined\<close>. An exception thrown
  in the handler rejects the promise the handler was to settle.
\<close>

definition axiosErrorToFault :: "(int \<Rightarrow> string) \<Rightarrow> axios_error \<Rightarrow> 'a promise" where
  "axiosErrorToFault ns error =
     (case to_string ns (member (member (response_data error) ''fault'') ''type'') of
        None \<Rightarrow> Rejected (TypeError CannotConvertToPrimitive)
      | Some key \<Rightarrow>
          (case Faults_get key of
             None \<Rightarrow> Rejected (TransportError error)
           | Some Fault \<Rightarrow>
               (case construct ns Fault
                       (member (member (response_data error) ''fault'') ''message'') of
                  Inl t \<Rightarrow> Rejected (TypeError t)
                | Inr v \<Rightarrow> Rejected v)))"

section \<open>The HTTP collaborator\<close>

datatype http_method = GET | POST | DELETE

text \<open>
  The request an instance method hands to the transport: \<open>params\<close> and \<open>body\<close> are
  \<open>None\<close> where the call passes none.
\<close>

record request =
  req_method :: http_method
  url :: string
  params :: "(string \<times> jsval) list option"
  body :: "jsval option"

record basic_auth =
  auth_username :: string
  auth_password :: string

record axios_defaults =
  baseURL :: string
  auth :: basic_auth
  headers :: "(string \<times> string) list"

text \<open>
  An instance holds its defaults and the response interceptor registered on it, a
  pair of handlers: one for a fulfilled exchange, one for a failed one.
\<close>

record axios_instance =
  defaults :: axios_defaults
  interceptors_response ::
    "((response \<Rightarrow> response promise) \<times> (axios_error \<Rightarrow> response promise)) option"

definition axios_create :: "axios_defaults \<Rightarrow> axios_instance" where
  "axios_create cfg = \<lparr>defaults = cfg, interceptors_response = None\<rparr>"

definition interceptors_response_use ::
  "axios_instance \<Rightarrow> (response \<Rightarrow> response promise) \<Rightarrow> (axios_error \<Rightarrow> response promise)
     \<Rightarrow> axios_instance" where
  "interceptors_response_use inst onFulfilled onRejected =
     inst\<lparr>interceptors_response := Some (onFulfilled, onRejected)\<rparr>"

text \<open>
  The network exchange itself is the collaborator's: a function from the instance
  defaults and the request to the response, or to the error when the exchange failed.
\<close>

type_synonym adapter = "axios_defaults \<Rightarrow> request \<Rightarrow> axios_error + response"

definition dispatch :: "adapter \<Rightarrow> axios_instance \<Rightarrow> request \<Rightarrow> response promise" where
  "dispatch adapter inst req =
     (case adapter (defaults inst) req of
        Inr res \<Rightarrow>
          (case interceptors_response inst of
             None \<Rightarrow> Resolved res
           | Some (onFulfilled, onRejected) \<Rightarrow> onFulfilled res)
      | Inl err \<Rightarrow>
          (case interceptors_response inst of
             None \<Rightarrow> Rejected (TransportError err)
           | Some (onFulfilled, onRejected) \<Rightarrow> onRejected err))"

text \<open>\<^verbatim>\<open>.then(res => res.data)\<close>\<close>

definition then_data :: "response promise \<Rightarrow> jsval promise" where
  "then_data p = (case p of Resolved res \<Rightarrow> Resolved (data res) | Rejected e \<Rightarrow> Rejected e)"

section \<open>API client\<close>

record config =
  hostname :: string
  username :: string
  password :: string
  clientId :: string

record sdapi =
  http :: axios_instance

definition SDAPI :: "(int \<Rightarrow> string) \<Rightarrow> config \<Rightarrow> sdapi" where
  "SDAPI ns config =
     \<lparr>http =
        interceptors_response_use
          (axios_create
             \<lparr>baseURL = ''https://'' @ hostname config @ ''/s/-/dw/debugger/v2_0'',
              auth = \<lparr>auth_username = username config, auth_password = password config\<rparr>,
              headers = [(''x-dw-client-id'', clientId config)]\<rparr>)
          (\<lambda>res. Resolved res)
          (axiosErrorToFault ns)\<rparr>"

text \<open>A parameter with a default: the default applies when the argument is not given.\<close>

definition default_to :: "'a \<Rightarrow> 'a option \<Rightarrow> 'a" where
  "default_to d arg = (case arg of None \<Rightarrow> d | Some v \<Rightarrow> v)"

definition createClient_request :: request where
  "createClient_request = \<lparr>req_method = POST, url = ''/client'', params = None, body = None\<rparr>"

definition createClient :: "adapter \<Rightarrow> sdapi \<Rightarrow> response promise" where
  "createClient adapter self = dispatch adapter (http self) createClient_request"

definition deleteClient_request :: request where
  "deleteClient_request = \<lparr>req_method = DELETE, url = ''/client'', params = None, body = None\<rparr>"

definition deleteClient :: "adapter \<Rightarrow> sdapi \<Rightarrow> response promise" where
  "deleteClient adapter self = dispatch adapter (http self) deleteClient_request"

definition getBreakpoints_request :: request where
  "getBreakpoints_request = \<lparr>req_method = GET, url = ''/breakpoints'', params = None, body = None\<rparr>"

definition getBreakpoints :: "adapter \<Rightarrow> sdapi \<Rightarrow> jsval promise" where
  "getBreakpoints adapter self = then_data (dispatch adapter (http self) getBreakpoints_request)"

definition createBreakpoints_request :: "jsval \<Rightarrow> request" where
  "createBreakpoints_request breakpoints =
     \<lparr>req_method = POST, url = ''/breakpoints'', params = None, body = Some breakpoints\<rparr>"

definition createBreakpoints :: "adapter \<Rightarrow> sdapi \<Rightarrow> jsval \<Rightarrow> jsval promise" where
  "createBreakpoints adapter self breakpoints =
     then_data (dispatch adapter (http self) (createBreakpoints_request breakpoints))"

definition removeBreakpoints_request :: request where
  "removeBreakpoints_request =
     \<lparr>req_method = DELETE, url = ''/breakpoints'', params = None, body = None\<rparr>"

definition removeBreakpoints :: "adapter \<Rightarrow> sdapi \<Rightarrow> response promise" where
  "removeBreakpoints adapter self = dispatch adapter (http self) removeBreakpoints_request"

definition getBreakpoint_request :: "(int \<Rightarrow> string) \<Rightarrow> int \<Rightarrow> request" where
  "getBreakpoint_request ns id' =
     \<lparr>req_method = GET, url = ''/breakpoints/'' @ ns id', params = None, body = None\<rparr>"

definition getBreakpoint :: "(int \<Rightarrow> string) \<Rightarrow> adapter \<Rightarrow> sdapi \<Rightarrow> int \<Rightarrow> jsval promise" where
  "getBreakpoint ns adapter self id' =
     then_data (dispatch adapter (http self) (getBreakpoint_request ns id'))"

definition removeBreakpoint_request :: "(int \<Rightarrow> string) \<Rightarrow> int \<Rightarrow> request" where
  "removeBreakpoint_request ns id' =
     \<lparr>req_method = DELETE, url = ''/breakpoints/'' @ ns id', params = None, body = None\<rparr>"

definition removeBreakpoint :: "(int \<Rightarrow> string) \<Rightarrow> adapter \<Rightarrow> sdapi \<Rightarrow> int \<Rightarrow> response promise" where
  "removeBreakpoint ns adapter self id' =
     dispatch adapter (http self) (removeBreakpoint_request ns id')"

definition getScriptThreads_request :: request where
  "getScriptThreads_request = \<lparr>req_method = GET, url = ''/threads'', params = None, body = None\<rparr>"

definition getScriptThreads :: "adapter \<Rightarrow> sdapi \<Rightarrow> jsval promise" where
  "getScriptThreads adapter self =
     then_data (dispatch adapter (http self) getScriptThreads_request)"

definition resetScriptThreads_request :: request where
  "resetScriptThreads_request =
     \<lparr>req_method = POST, url = ''/threads/reset'', params = None, body = None\<rparr>"

definition resetScriptThreads :: "adapter \<Rightarrow> sdapi \<Rightarrow> response promise" where
  "resetScriptThreads adapter self = dispatch adapter (http self) resetScriptThreads_request"

definition getScriptThread_request :: "(int \<Rightarrow> string) \<Rightarrow> int \<Rightarrow> request" where
  "getScriptThread_request ns id' =
     \<lparr>req_method = GET, url = ''/threads/'' @ ns id', params = None, body = None\<rparr>"

definition getScriptThread :: "(int \<Rightarrow> string) \<Rightarrow> adapter \<Rightarrow> sdapi \<Rightarrow> int \<Rightarrow> jsval promise" where
  "getScriptThread ns adapter self id' =
     then_data (dispatch adapter (http self) (getScriptThread_request ns id'))"

definition evaluateExpression_request :: "(int \<Rightarrow> string) \<Rightarrow> int \<Rightarrow> int \<Rightarrow> string \<Rightarrow> request" where
  "evaluateExpression_request ns threadId frameIndex expr =
     \<lparr>req_method = GET,
      url = ''/threads/'' @ ns threadId @ ''/frames/'' @ ns frameIndex @ ''/eval'',
      params = Some [(''expr'', JStr expr)],
      body = None\<rparr>"

definition evaluateExpression ::
  "(int \<Rightarrow> string) \<Rightarrow> adapter \<Rightarrow> sdapi \<Rightarrow> int \<Rightarrow> int \<Rightarrow> string \<Rightarrow> jsval promise" where
  "evaluateExpression ns adapter self threadId frameIndex expr =
     then_data
       (dispatch adapter (http self) (evaluateExpression_request ns threadId frameIndex expr))"

text \<open>
  \<^verbatim>\<open>getObjectMembers(threadId, frameIndex, objectPath?, start = 0, count = 200)\<close>: the
  object \<^verbatim>\<open>params\<close> starts as \<^verbatim>\<open>{start, count}\<close> and gets the key \<^verbatim>\<open>object_path\<close>
  under \<^verbatim>\<open>if (objectPath)\<close>, a test of truthiness: \<^verbatim>\<open>undefined\<close> and the empty string
  are falsy, every other string is truthy.
\<close>

definition getObjectMembers_params ::
  "string option \<Rightarrow> int option \<Rightarrow> int option \<Rightarrow> (string \<times> jsval) list" where
  "getObjectMembers_params objectPath start count =
     (let params = [(''start'', JNum (default_to 0 start)),
                    (''count'', JNum (default_to 200 count))]
      in case objectPath of
           None \<Rightarrow> params
         | Some p \<Rightarrow> if p = [] then params else params @ [(''object_path'', JStr p)])"

definition getObjectMembers_request ::
  "(int \<Rightarrow> string) \<Rightarrow> int \<Rightarrow> int \<Rightarrow> string option \<Rightarrow> int option \<Rightarrow> int option \<Rightarrow> request" where
  "getObjectMembers_request ns threadId frameIndex objectPath start count =
     \<lparr>req_method = GET,
      url = ''/threads/'' @ ns threadId @ ''/frames/'' @ ns frameIndex @ ''/members'',
      params = Some (getObjectMembers_params objectPath start count),
      body = None\<rparr>"

definition getObjectMembers ::
  "(int \<Rightarrow> string) \<Rightarrow> adapter \<Rightarrow> sdapi \<Rightarrow> int \<Rightarrow> int \<Rightarrow> string option \<Rightarrow> int option \<Rightarrow> int option
     \<Rightarrow> jsval promise" where
  "getObjectMembers ns adapter self threadId frameIndex objectPath start count =
     then_data
       (dispatch adapter (http self)
          (getObjectMembers_request ns threadId frameIndex objectPath start count))"

definition getVariables_request ::
  "(int \<Rightarrow> string) \<Rightarrow> int \<Rightarrow> int \<Rightarrow> int option \<Rightarrow> int option \<Rightarrow> request" where
  "getVariables_request ns threadId frameIndex start count =
     \<lparr>req_method = GET,
      url = ''/threads/'' @ ns threadId @ ''/frames/'' @ ns frameIndex @ ''/variables'',
      params = Some [(''start'', JNum (default_to 0 start)),
                     (''count'', JNum (default_to 200 count))],
      body = None\<rparr>"

definition getVariables ::
  "(int \<Rightarrow> string) \<Rightarrow> adapter \<Rightarrow> sdapi \<Rightarrow> int \<Rightarrow> int \<Rightarrow> int option \<Rightarrow> int option \<Rightarrow> jsval promise" where
  "getVariables ns adapter self threadId frameIndex start count =
     then_data
       (dispatch adapter (http self) (getVariables_request ns threadId frameIndex start count))"

datatype action = Into | Out | Over | Resume | Stop

fun action_name :: "action \<Rightarrow> string" where
  "action_name Into = ''into''"
| "action_name Out = ''out''"
| "action_name Over = ''over''"
| "action_name Resume = ''resume''"
| "action_name Stop = ''stop''"

definition step_request :: "(int \<Rightarrow> string) \<Rightarrow> int \<Rightarrow> action \<Rightarrow> request" where
  "step_request ns threadId act =
     \<lparr>req_method = POST,
      url = ''/threads/'' @ ns threadId @ ''/'' @ action_name act,
      params = None,
      body = None\<rparr>"

definition step :: "(int \<Rightarrow> string) \<Rightarrow> adapter \<Rightarrow> sdapi \<Rightarrow> int \<Rightarrow> action \<Rightarrow> jsval promise" where
  "step ns adapter self threadId act =
     then_data (dispatch adapter (http self) (step_request ns threadId act))"

definition stepInto :: "(int \<Rightarrow> string) \<Rightarrow> adapter \<Rightarrow> sdapi \<Rightarrow> int \<Rightarrow> jsval promise" where
  "stepInto ns adapter self threadId = step ns adapter self threadId Into"

definition stepOut :: "(int \<Rightarrow> string) \<Rightarrow> adapter \<Rightarrow> sdapi \<Rightarrow> int \<Rightarrow> jsval promise" where
  "stepOut ns adapter self threadId = step ns adapter self threadId Out"

definition stepOver :: "(int \<Rightarrow> string) \<Rightarrow> adapter \<Rightarrow> sdapi \<Rightarrow> int \<Rightarrow> jsval promise" where
  "stepOver ns adapter self threadId = step ns adapter self threadId Over"

definition stepResume :: "(int \<Rightarrow> string) \<Rightarrow> adapter \<Rightarrow> sdapi \<Rightarrow> int \<Rightarrow> jsval promise" where
  "stepResume ns adapter self threadId = step ns adapter self threadId Resume"

definition stepStop :: "(int \<Rightarrow> string) \<Rightarrow> adapter \<Rightarrow> sdapi \<Rightarrow> int \<Rightarrow> jsval promise" where
  "stepStop ns adapter self threadId = step ns adapter self threadId Stop"

section \<open>Method calls on the client object\<close>

text \<open>
  A call of a public method of the class, with its arguments, and what the call leaves:
  the settled promise and the object after the call. No method assigns to a field of
  \<^verbatim>\<open>this\<close> or of \<^verbatim>\<open>this.http\<close>, so each returns the object it was called on.
\<close>

datatype call =
    CreateClient
  | DeleteClient
  | GetBreakpoints
  | CreateBreakpoints jsval
  | RemoveBreakpoints
  | GetBreakpoint int
  | RemoveBreakpoint int
  | GetScriptThreads
  | ResetScriptThreads
  | GetScriptThread int
  | EvaluateExpression int int string
  | GetObjectMembers int int "string option" "int option" "int option"
  | GetVariables int int "int option" "int option"
  | StepInto int
  | StepOut int
  | StepOver int
  | StepResume int
  | StepStop int

fun invoke ::
  "(int \<Rightarrow> string) \<Rightarrow> adapter \<Rightarrow> sdapi \<Rightarrow> call \<Rightarrow> (response promise + jsval promise) \<times> sdapi" where
  "invoke ns adapter self CreateClient = (Inl (createClient adapter self), self)"
| "invoke ns adapter self DeleteClient = (Inl (deleteClient adapter self), self)"
| "invoke ns adapter self GetBreakpoints = (Inr (getBreakpoints adapter self), self)"
| "invoke ns adapter self (CreateBreakpoints b) = (Inr (createBreakpoints adapter self b), self)"
| "invoke ns adapter self RemoveBreakpoints = (Inl (removeBreakpoints adapter self), self)"
| "invoke ns adapter self (GetBreakpoint i) = (Inr (getBreakpoint ns adapter self i), self)"
| "invoke ns adapter self (RemoveBreakpoint i) = (Inl (removeBreakpoint ns adapter self i), self)"
| "invoke ns adapter self GetScriptThreads = (Inr (getScriptThreads adapter self), self)"
| "invoke ns adapter self ResetScriptThreads = (Inl (resetScriptThreads adapter self), self)"
| "invoke ns adapter self (GetScriptThread i) = (Inr (getScriptThread ns adapter self i), self)"
| "invoke ns adapter self (EvaluateExpression t f e) =
     (Inr (evaluateExpression ns adapter self t f e), self)"
| "invoke ns adapter self (GetObjectMembers t f p s c) =
     (Inr (getObjectMembers ns adapter self t f p s c), self)"
| "invoke ns adapter self (GetVariables t f s c) =
     (Inr (getVariables ns adapter self t f s c), self)"
| "invoke ns adapter self (StepInto t) = (Inr (stepInto ns adapter self t), self)"
| "invoke ns adapter self (StepOut t) = (Inr (stepOut ns adapter self t), self)"
| "invoke ns adapter self (StepOver t) = (Inr (stepOver ns adapter self t), self)"
| "invoke ns adapter self (StepResume t) = (Inr (stepResume ns adapter self t), self)"
| "invoke ns adapter self (StepStop t) = (Inr (stepStop ns adapter self t), self)"

text \<open>The object after a sequence of calls.\<close>

fun after_calls :: "(int \<Rightarrow> string) \<Rightarrow> adapter \<Rightarrow> sdapi \<Rightarrow> call list \<Rightarrow> sdapi" where
  "after_calls ns adapter self [] = self"
| "after_calls ns adapter self (c # cs) =
     after_calls ns adapter (snd (invoke ns adapter self c)) cs"

section \<open>Properties of the fault taxonomy and the translator\<close>

lemma Faults_keys:
  "map fst Faults =
     [''NotAuthorizedException'', ''ClientIdRequiredException'', ''DebuggerDisabledException'',
      ''InvalidScriptPathException'', ''InvalidScriptFileException'',
      ''BreakpointNotFoundException'', ''ScriptThreadNotFoundException'',
      ''InvalidFrameIndexException'']"
  by (simp add: Faults_def)

lemma Faults_class_name: "map_of Faults (class_name k) = Some k"
  by (cases k) (simp_all add: Faults_def)

lemma Faults_name_of_class: "map_of Faults t = Some k \<Longrightarrow> class_name k = t"
  by (auto simp: Faults_def split: if_splits)

lemma Faults_get_undefined: "Faults_get ''undefined'' = None"
  by (simp add: Faults_get_def Faults_def Object_prototype_def)

text \<open>
  A discriminator that resolves to nothing, in \<^verbatim>\<open>Faults\<close> and in the prototype behind
  it, leaves the transport error as it is; so does an exchange without a response or
  without \<^verbatim>\<open>fault.type\<close> in its body.
\<close>

lemma unresolved_type_passes_error:
  assumes "to_string ns (member (member (response_data e) ''fault'') ''type'') = Some key"
    and "Faults_get key = None"
  shows "axiosErrorToFault ns e = Rejected (TransportError e)"
  by (simp add: axiosErrorToFault_def assms)

lemma absent_type_passes_error:
  assumes "member (member (response_data e) ''fault'') ''type'' = JUndefined"
  shows "axiosErrorToFault ns e = Rejected (TransportError e)"
  by (simp add: axiosErrorToFault_def assms Faults_get_undefined)

lemma no_response_passes_error:
  assumes "response e = None"
  shows "axiosErrorToFault ns e = Rejected (TransportError e)"
  by (rule absent_type_passes_error) (simp add: response_data_def assms)

text \<open>
  The fallback scenario of the test suite: a 500 whose body is the plain text
  \<^verbatim>\<open>Internal Server Error\<close> is rejected with the transport error.
\<close>

lemma plain_text_body_passes_error:
  "axiosErrorToFault decimal
     \<lparr>error_message = ''Request failed with status code 500'',
      response = Some \<lparr>status = 500, data = JStr ''Internal Server Error'',
                       response_headers = []\<rparr>\<rparr>
   = (Rejected (TransportError
        \<lparr>error_message = ''Request failed with status code 500'',
         response = Some \<lparr>status = 500, data = JStr ''Internal Server Error'',
                          response_headers = []\<rparr>\<rparr>) :: response promise)"
  by (rule absent_type_passes_error) (simp add: response_data_def)

text \<open>
  C2. A failed exchange whose \<^verbatim>\<open>fault.type\<close> is not a key of the taxonomy should be
  rejected with the transport error itself. The lookup \<^verbatim>\<open>Faults[key]\<close> also finds what
  the object inherits: at the discriminator \<^verbatim>\<open>toString\<close>, which is not a key of
  \<^verbatim>\<open>Faults\<close>, it yields a built-in method, \<^verbatim>\<open>new\<close> throws, and the operation is
  rejected with a \<^verbatim>\<open>TypeError\<close> in place of the transport error.
\<close>

theorem inherited_key_is_not_passed_through:
  "map_of Faults ''toString'' = None \<and>
   axiosErrorToFault decimal
     \<lparr>error_message = ''Request failed with status code 500'',
      response = Some
        \<lparr>status = 500,
         data = JObj [(''fault'', JObj [(''type'', JStr ''toString''), (''message'', JStr ''x'')])],
         response_headers = []\<rparr>\<rparr>
     = (Rejected (TypeError NotAConstructor) :: response promise)"
  by (simp add: axiosErrorToFault_def response_data_def Faults_get_def Faults_def
      Object_prototype_def)

section \<open>Properties of the client\<close>

lemma SDAPI_defaults:
  "defaults (http (SDAPI ns cfg)) =
     \<lparr>baseURL = ''https://'' @ hostname cfg @ ''/s/-/dw/debugger/v2_0'',
      auth = \<lparr>auth_username = username cfg, auth_password = password cfg\<rparr>,
      headers = [(''x-dw-client-id'', clientId cfg)]\<rparr>"
  by (simp add: SDAPI_def axios_create_def interceptors_response_use_def)

lemma SDAPI_interceptor:
  "interceptors_response (http (SDAPI ns cfg)) =
     Some (\<lambda>res. Resolved res, axiosErrorToFault ns)"
  by (simp add: SDAPI_def axios_create_def interceptors_response_use_def)

text \<open>
  What a request through the constructed instance settles to: the response itself on a
  successful exchange, the translator's rejection on a failed one.
\<close>

lemma dispatch_SDAPI:
  "dispatch adapter (http (SDAPI ns cfg)) req =
     (case adapter (defaults (http (SDAPI ns cfg))) req of
        Inr res \<Rightarrow> Resolved res
      | Inl err \<Rightarrow> axiosErrorToFault ns err)"
  by (simp add: dispatch_def SDAPI_interceptor split: sum.splits)

lemma dispatch_success:
  "adapter (defaults (http (SDAPI ns cfg))) req = Inr res \<Longrightarrow>
   dispatch adapter (http (SDAPI ns cfg)) req = Resolved res"
  by (simp add: dispatch_SDAPI)

lemma then_data_success:
  "adapter (defaults (http (SDAPI ns cfg))) req = Inr res \<Longrightarrow>
   then_data (dispatch adapter (http (SDAPI ns cfg)) req) = Resolved (data res)"
  by (simp add: dispatch_SDAPI then_data_def)

lemma invoke_self: "snd (invoke ns adapter self c) = self"
  by (cases c) simp_all

lemma after_calls_self: "after_calls ns adapter self cs = self"
  by (induction cs) (simp_all add: invoke_self)

text \<open>
  C1. For each of the eight discriminators of the fault taxonomy, named here with the
  class each stands for, a failed exchange whose body carries that discriminator under
  \<^verbatim>\<open>fault.type\<close> and the message text \<open>m\<close> under \<^verbatim>\<open>fault.message\<close> makes the
  operation fail with an instance of that class whose message is \<open>m\<close>, whatever the
  status code \<open>s\<close>, the headers and the transport's own error are. This holds of the
  translator, of a request through the constructed client, and of each of its
  operations, with or without a payload.
\<close>

theorem known_fault_is_translated:
  assumes "(t, k) \<in> set
             [(''NotAuthorizedException'', NotAuthorizedException),
              (''ClientIdRequiredException'', ClientIdRequiredException),
              (''DebuggerDisabledException'', DebuggerDisabledException),
              (''InvalidScriptPathException'', InvalidScriptPathException),
              (''InvalidScriptFileException'', InvalidScriptFileException),
              (''BreakpointNotFoundException'', BreakpointNotFoundException),
              (''ScriptThreadNotFoundException'', ScriptThreadNotFoundException),
              (''InvalidFrameIndexException'', InvalidFrameIndexException)]"
    and "response err = Some \<lparr>status = s, data = payload, response_headers = hs\<rparr>"
    and "member (member payload ''fault'') ''type'' = JStr t"
    and "member (member payload ''fault'') ''message'' = JStr m"
  shows "map_of Faults t = Some k
   \<and> class_name k = t
   \<and> axiosErrorToFault ns err = (Rejected (FaultError k (Some m)) :: response promise)
   \<and> (adapter (defaults (http (SDAPI ns cfg))) req = Inl err \<longrightarrow>
      dispatch adapter (http (SDAPI ns cfg)) req = Rejected (FaultError k (Some m)))
   \<and> (adapter (defaults (http (SDAPI ns cfg))) createClient_request = Inl err \<longrightarrow>
      createClient adapter (SDAPI ns cfg) = Rejected (FaultError k (Some m)))
   \<and> (adapter (defaults (http (SDAPI ns cfg))) deleteClient_request = Inl err \<longrightarrow>
      deleteClient adapter (SDAPI ns cfg) = Rejected (FaultError k (Some m)))
   \<and> (adapter (defaults (http (SDAPI ns cfg))) getBreakpoints_request = Inl err \<longrightarrow>
      getBreakpoints adapter (SDAPI ns cfg) = Rejected (FaultError k (Some m)))
   \<and> (adapter (defaults (http (SDAPI ns cfg))) (createBreakpoints_request b) = Inl err \<longrightarrow>
      createBreakpoints adapter (SDAPI ns cfg) b = Rejected (FaultError k (Some m)))
   \<and> (adapter (defaults (http (SDAPI ns cfg))) removeBreakpoints_request = Inl err \<longrightarrow>
      removeBreakpoints adapter (SDAPI ns cfg) = Rejected (FaultError k (Some m)))
   \<and> (adapter (defaults (http (SDAPI ns cfg))) (getBreakpoint_request ns i) = Inl err \<longrightarrow>
      getBreakpoint ns adapter (SDAPI ns cfg) i = Rejected (FaultError k (Some m)))
   \<and> (adapter (defaults (http (SDAPI ns cfg))) (removeBreakpoint_request ns i) = Inl err \<longrightarrow>
      removeBreakpoint ns adapter (SDAPI ns cfg) i = Rejected (FaultError k (Some m)))
   \<and> (adapter (defaults (http (SDAPI ns cfg))) getScriptThreads_request = Inl err \<longrightarrow>
      getScriptThreads adapter (SDAPI ns cfg) = Rejected (FaultError k (Some m)))
   \<and> (adapter (defaults (http (SDAPI ns cfg))) resetScriptThreads_request = Inl err \<longrightarrow>
      resetScriptThreads adapter (SDAPI ns cfg) = Rejected (FaultError k (Some m)))
   \<and> (adapter (defaults (http (SDAPI ns cfg))) (getScriptThread_request ns i) = Inl err \<longrightarrow>
      getScriptThread ns adapter (SDAPI ns cfg) i = Rejected (FaultError k (Some m)))
   \<and> (adapter (defaults (http (SDAPI ns cfg))) (evaluateExpression_request ns th f e) = Inl err \<longrightarrow>
      evaluateExpression ns adapter (SDAPI ns cfg) th f e = Rejected (FaultError k (Some m)))
   \<and> (adapter (defaults (http (SDAPI ns cfg))) (getObjectMembers_request ns th f p st c) = Inl err \<longrightarrow>
      getObjectMembers ns adapter (SDAPI ns cfg) th f p st c = Rejected (FaultError k (Some m)))
   \<and> (adapter (defaults (http (SDAPI ns cfg))) (getVariables_request ns th f st c) = Inl err \<longrightarrow>
      getVariables ns adapter (SDAPI ns cfg) th f st c = Rejected (FaultError k (Some m)))
   \<and> (adapter (defaults (http (SDAPI ns cfg))) (step_request ns th Into) = Inl err \<longrightarrow>
      stepInto ns adapter (SDAPI ns cfg) th = Rejected (FaultError k (Some m)))
   \<and> (adapter (defaults (http (SDAPI ns cfg))) (step_request ns th Out) = Inl err \<longrightarrow>
      stepOut ns adapter (SDAPI ns cfg) th = Rejected (FaultError k (Some m)))
   \<and> (adapter (defaults (http (SDAPI ns cfg))) (step_request ns th Over) = Inl err \<longrightarrow>
      stepOver ns adapter (SDAPI ns cfg) th = Rejected (FaultError k (Some m)))
   \<and> (adapter (defaults (http (SDAPI ns cfg))) (step_request ns th Resume) = Inl err \<longrightarrow>
      stepResume ns adapter (SDAPI ns cfg) th = Rejected (FaultError k (Some m)))
   \<and> (adapter (defaults (http (SDAPI ns cfg))) (step_request ns th Stop) = Inl err \<longrightarrow>
      stepStop ns adapter (SDAPI ns cfg) th = Rejected (FaultError k (Some m)))"
proof -
  have name: "class_name k = t"
    using assms(1) by (cases k) simp_all
  have key: "map_of Faults t = Some k"
    using Faults_class_name [of k] by (simp add: name)
  have d: "response_data err = payload"
    by (simp add: response_data_def assms(2))
  have get: "Faults_get t = Some (FaultClass k)"
    using key by (simp add: Faults_get_def)
  have trr: "axiosErrorToFault ns err = (Rejected (FaultError k (Some m)) :: response promise)"
    unfolding axiosErrorToFault_def d by (simp add: assms(3,4) get)
  have disp: "\<And>r. adapter (defaults (http (SDAPI ns cfg))) r = Inl err \<Longrightarrow>
      dispatch adapter (http (SDAPI ns cfg)) r = Rejected (FaultError k (Some m))"
    by (simp add: dispatch_SDAPI trr)
  show ?thesis
    by (simp add: key name trr disp then_data_def createClient_def deleteClient_def
        getBreakpoints_def createBreakpoints_def removeBreakpoints_def getBreakpoint_def
        removeBreakpoint_def getScriptThreads_def resetScriptThreads_def getScriptThread_def
        evaluateExpression_def getObjectMembers_def getVariables_def step_def stepInto_def
        stepOut_def stepOver_def stepResume_def stepStop_def)
qed

theorem known_fault_is_translated_witness:
  "createClient
     (\<lambda>d r. Inl \<lparr>error_message = ''Request failed with status code 401'',
                 response = Some
                   \<lparr>status = 401,
                    data = JObj [(''_v'', JStr ''2.0''),
                                 (''fault'',
                                  JObj [(''type'', JStr ''NotAuthorizedException''),
                                        (''message'',
                                         JStr ''You are not authorized to use the Script Debugger.'')])],
                    response_headers = []\<rparr>\<rparr>)
     (SDAPI decimal
        \<lparr>hostname = ''localhost'', username = ''username'', password = ''password'',
         clientId = ''TestSDAPI''\<rparr>)
   = Rejected (FaultError NotAuthorizedException
       (Some ''You are not authorized to use the Script Debugger.''))
   \<and> getBreakpoints
     (\<lambda>d r. Inl \<lparr>error_message = ''Request failed with status code 401'',
                 response = Some
                   \<lparr>status = 401,
                    data = JObj [(''_v'', JStr ''2.0''),
                                 (''fault'',
                                  JObj [(''type'', JStr ''NotAuthorizedException''),
                                        (''message'',
                                         JStr ''You are not authorized to use the Script Debugger.'')])],
                    response_headers = []\<rparr>\<rparr>)
     (SDAPI decimal
        \<lparr>hostname = ''localhost'', username = ''username'', password = ''password'',
         clientId = ''TestSDAPI''\<rparr>)
   = Rejected (FaultError NotAuthorizedException
       (Some ''You are not authorized to use the Script Debugger.''))"
proof -
  let ?payload = "JObj [(''_v'', JStr ''2.0''),
                        (''fault'',
                         JObj [(''type'', JStr ''NotAuthorizedException''),
                               (''message'',
                                JStr ''You are not authorized to use the Script Debugger.'')])]"
  let ?err = "\<lparr>error_message = ''Request failed with status code 401'',
               response = Some \<lparr>status = 401, data = ?payload, response_headers = []\<rparr>\<rparr>"
  let ?cfg = "\<lparr>hostname = ''localhost'', username = ''username'', password = ''password'',
               clientId = ''TestSDAPI''\<rparr>"
  have h1: "(''NotAuthorizedException'', NotAuthorizedException) \<in> set
             [(''NotAuthorizedException'', NotAuthorizedException),
              (''ClientIdRequiredException'', ClientIdRequiredException),
              (''DebuggerDisabledException'', DebuggerDisabledException),
              (''InvalidScriptPathException'', InvalidScriptPathException),
              (''InvalidScriptFileException'', InvalidScriptFileException),
              (''BreakpointNotFoundException'', BreakpointNotFoundException),
              (''ScriptThreadNotFoundException'', ScriptThreadNotFoundException),
              (''InvalidFrameIndexException'', InvalidFrameIndexException)]"
    by simp
  have h2: "response ?err = Some \<lparr>status = 401, data = ?payload, response_headers = []\<rparr>"
    by simp
  have h3: "member (member ?payload ''fault'') ''type'' = JStr ''NotAuthorizedException''"
    by simp
  have h4: "member (member ?payload ''fault'') ''message'' =
      JStr ''You are not authorized to use the Script Debugger.''"
    by simp
  show ?thesis
    using known_fault_is_translated [OF h1 h2 h3 h4,
        where adapter = "\<lambda>d r. Inl ?err" and ns = decimal and cfg = ?cfg
          and req = createClient_request and b = JNull and i = 1 and th = 1 and f = 0
          and e = "''x''" and p = None and st = None and c = None]
    by simp
qed

text \<open>
  C3. Called with no \<open>objectPath\<close>, \<open>getObjectMembers\<close> sends the query parameters
  \<open>start\<close> and \<open>count\<close> and no others, whether the two are defaulted or given. Called
  with \<^verbatim>\<open>'basket.productLineItems'\<close>, 10 and 100, it sends exactly \<open>start = 10\<close>,
  \<open>count = 100\<close> and \<open>object_path = 'basket.productLineItems'\<close>. The last two conjuncts
  say that these are the parameters of the request the operation issues.
\<close>

theorem getObjectMembers_query_parameters:
  "params (getObjectMembers_request ns threadId frameIndex None None None) =
     Some [(''start'', JNum 0), (''count'', JNum 200)]
   \<and> params (getObjectMembers_request ns threadId frameIndex None (Some start) (Some count)) =
     Some [(''start'', JNum start), (''count'', JNum count)]
   \<and> params (getObjectMembers_request ns threadId frameIndex
               (Some ''basket.productLineItems'') (Some 10) (Some 100)) =
     Some [(''start'', JNum 10), (''count'', JNum 100),
           (''object_path'', JStr ''basket.productLineItems'')]
   \<and> getObjectMembers ns adapter self threadId frameIndex None None None =
      then_data (dispatch adapter (http self)
        \<lparr>req_method = GET,
         url = ''/threads/'' @ ns threadId @ ''/frames/'' @ ns frameIndex @ ''/members'',
         params = Some [(''start'', JNum 0), (''count'', JNum 200)],
         body = None\<rparr>)
   \<and> getObjectMembers ns adapter self threadId frameIndex
        (Some ''basket.productLineItems'') (Some 10) (Some 100) =
      then_data (dispatch adapter (http self)
        \<lparr>req_method = GET,
         url = ''/threads/'' @ ns threadId @ ''/frames/'' @ ns frameIndex @ ''/members'',
         params = Some [(''start'', JNum 10), (''count'', JNum 100),
                        (''object_path'', JStr ''basket.productLineItems'')],
         body = None\<rparr>)"
  by (simp add: getObjectMembers_def getObjectMembers_request_def getObjectMembers_params_def
      default_to_def)

text \<open>
  C4. For every thread identifier and frame index, \<open>getObjectMembers\<close> (whatever its
  \<open>objectPath\<close>) and \<open>getVariables\<close>, called without \<open>start\<close> and \<open>count\<close>, issue a
  request whose query parameters have \<open>start = 0\<close> and \<open>count = 200\<close>.
\<close>

theorem pagination_defaults:
  "map_of (getObjectMembers_params objectPath None None) ''start'' = Some (JNum 0)
   \<and> map_of (getObjectMembers_params objectPath None None) ''count'' = Some (JNum 200)
   \<and> getObjectMembers ns adapter self threadId frameIndex objectPath None None =
      then_data (dispatch adapter (http self)
        \<lparr>req_method = GET,
         url = ''/threads/'' @ ns threadId @ ''/frames/'' @ ns frameIndex @ ''/members'',
         params = Some (getObjectMembers_params objectPath None None),
         body = None\<rparr>)
   \<and> getVariables ns adapter self threadId frameIndex None None =
      then_data (dispatch adapter (http self)
        \<lparr>req_method = GET,
         url = ''/threads/'' @ ns threadId @ ''/frames/'' @ ns frameIndex @ ''/variables'',
         params = Some [(''start'', JNum 0), (''count'', JNum 200)],
         body = None\<rparr>)"
  by (simp add: getObjectMembers_def getObjectMembers_request_def getObjectMembers_params_def
      getVariables_def getVariables_request_def default_to_def Let_def split: option.splits)

text \<open>
  C5. For every thread identifier, \<open>stepInto\<close>, \<open>stepOut\<close>, \<open>stepOver\<close>, \<open>stepResume\<close>
  and \<open>stepStop\<close> issue a \<open>POST\<close>, without query parameters or body, to
  \<^verbatim>\<open>/threads/{threadId}/into\<close>, \<^verbatim>\<open>/out\<close>, \<^verbatim>\<open>/over\<close>, \<^verbatim>\<open>/resume\<close> and \<^verbatim>\<open>/stop\<close>
  respectively; when the exchange of that request succeeds, the operation resolves to
  the body of the response.
\<close>

theorem step_posts_and_unwraps:
  "stepInto ns adapter self threadId =
     then_data (dispatch adapter (http self)
       \<lparr>req_method = POST, url = ''/threads/'' @ ns threadId @ ''/into'',
        params = None, body = None\<rparr>)
   \<and> stepOut ns adapter self threadId =
     then_data (dispatch adapter (http self)
       \<lparr>req_method = POST, url = ''/threads/'' @ ns threadId @ ''/out'',
        params = None, body = None\<rparr>)
   \<and> stepOver ns adapter self threadId =
     then_data (dispatch adapter (http self)
       \<lparr>req_method = POST, url = ''/threads/'' @ ns threadId @ ''/over'',
        params = None, body = None\<rparr>)
   \<and> stepResume ns adapter self threadId =
     then_data (dispatch adapter (http self)
       \<lparr>req_method = POST, url = ''/threads/'' @ ns threadId @ ''/resume'',
        params = None, body = None\<rparr>)
   \<and> stepStop ns adapter self threadId =
     then_data (dispatch adapter (http self)
       \<lparr>req_method = POST, url = ''/threads/'' @ ns threadId @ ''/stop'',
        params = None, body = None\<rparr>)
   \<and> (adapter (defaults (http (SDAPI ns cfg)))
         \<lparr>req_method = POST, url = ''/threads/'' @ ns threadId @ ''/into'',
          params = None, body = None\<rparr> = Inr res_into \<longrightarrow>
      stepInto ns adapter (SDAPI ns cfg) threadId = Resolved (data res_into))
   \<and> (adapter (defaults (http (SDAPI ns cfg)))
         \<lparr>req_method = POST, url = ''/threads/'' @ ns threadId @ ''/out'',
          params = None, body = None\<rparr> = Inr res_out \<longrightarrow>
      stepOut ns adapter (SDAPI ns cfg) threadId = Resolved (data res_out))
   \<and> (adapter (defaults (http (SDAPI ns cfg)))
         \<lparr>req_method = POST, url = ''/threads/'' @ ns threadId @ ''/over'',
          params = None, body = None\<rparr> = Inr res_over \<longrightarrow>
      stepOver ns adapter (SDAPI ns cfg) threadId = Resolved (data res_over))
   \<and> (adapter (defaults (http (SDAPI ns cfg)))
         \<lparr>req_method = POST, url = ''/threads/'' @ ns threadId @ ''/resume'',
          params = None, body = None\<rparr> = Inr res_resume \<longrightarrow>
      stepResume ns adapter (SDAPI ns cfg) threadId = Resolved (data res_resume))
   \<and> (adapter (defaults (http (SDAPI ns cfg)))
         \<lparr>req_method = POST, url = ''/threads/'' @ ns threadId @ ''/stop'',
          params = None, body = None\<rparr> = Inr res_stop \<longrightarrow>
      stepStop ns adapter (SDAPI ns cfg) threadId = Resolved (data res_stop))"
proof -
  have issue: "\<And>act s. step ns adapter s threadId act =
      then_data (dispatch adapter (http s)
        \<lparr>req_method = POST, url = ''/threads/'' @ ns threadId @ ''/'' @ action_name act,
         params = None, body = None\<rparr>)"
    by (simp add: step_def step_request_def)
  have ok: "\<And>r res. adapter (defaults (http (SDAPI ns cfg))) r = Inr res \<Longrightarrow>
      then_data (dispatch adapter (http (SDAPI ns cfg)) r) = Resolved (data res)"
    by (rule then_data_success)
  show ?thesis
    by (simp add: stepInto_def stepOut_def stepOver_def stepResume_def stepStop_def issue ok)
qed

theorem step_posts_and_unwraps_witness:
  "stepInto decimal
     (\<lambda>d r. if req_method r = POST \<and> params r = None \<and> body r = None
            then Inr \<lparr>status = 200, data = JStr (url r), response_headers = []\<rparr>
            else Inl \<lparr>error_message = ''Network Error'', response = None\<rparr>)
     (SDAPI decimal
        \<lparr>hostname = ''localhost'', username = ''username'', password = ''password'',
         clientId = ''TestSDAPI''\<rparr>) 1
     = Resolved (JStr ''/threads/1/into'')
   \<and> stepOut decimal
     (\<lambda>d r. if req_method r = POST \<and> params r = None \<and> body r = None
            then Inr \<lparr>status = 200, data = JStr (url r), response_headers = []\<rparr>
            else Inl \<lparr>error_message = ''Network Error'', response = None\<rparr>)
     (SDAPI decimal
        \<lparr>hostname = ''localhost'', username = ''username'', password = ''password'',
         clientId = ''TestSDAPI''\<rparr>) 1
     = Resolved (JStr ''/threads/1/out'')
   \<and> stepOver decimal
     (\<lambda>d r. if req_method r = POST \<and> params r = None \<and> body r = None
            then Inr \<lparr>status = 200, data = JStr (url r), response_headers = []\<rparr>
            else Inl \<lparr>error_message = ''Network Error'', response = None\<rparr>)
     (SDAPI decimal
        \<lparr>hostname = ''localhost'', username = ''username'', password = ''password'',
         clientId = ''TestSDAPI''\<rparr>) 1
     = Resolved (JStr ''/threads/1/over'')
   \<and> stepResume decimal
     (\<lambda>d r. if req_method r = POST \<and> params r = None \<and> body r = None
            then Inr \<lparr>status = 200, data = JStr (url r), response_headers = []\<rparr>
            else Inl \<lparr>error_message = ''Network Error'', response = None\<rparr>)
     (SDAPI decimal
        \<lparr>hostname = ''localhost'', username = ''username'', password = ''password'',
         clientId = ''TestSDAPI''\<rparr>) 1
     = Resolved (JStr ''/threads/1/resume'')
   \<and> stepStop decimal
     (\<lambda>d r. if req_method r = POST \<and> params r = None \<and> body r = None
            then Inr \<lparr>status = 200, data = JStr (url r), response_headers = []\<rparr>
            else Inl \<lparr>error_message = ''Network Error'', response = None\<rparr>)
     (SDAPI decimal
        \<lparr>hostname = ''localhost'', username = ''username'', password = ''password'',
         clientId = ''TestSDAPI''\<rparr>) 1
     = Resolved (JStr ''/threads/1/stop'')"
proof -
  have one: "decimal 1 = ''1''"
    by (simp add: decimal_def digits.simps)
  show ?thesis
    using step_posts_and_unwraps
      [where adapter = "\<lambda>d r. if req_method r = POST \<and> params r = None \<and> body r = None
            then Inr \<lparr>status = 200, data = JStr (url r), response_headers = []\<rparr>
            else Inl \<lparr>error_message = ''Network Error'', response = None\<rparr>"
         and ns = decimal
         and cfg = "\<lparr>hostname = ''localhost'', username = ''username'',
                     password = ''password'', clientId = ''TestSDAPI''\<rparr>"
         and self = "SDAPI decimal \<lparr>hostname = ''localhost'', username = ''username'',
                     password = ''password'', clientId = ''TestSDAPI''\<rparr>"
         and threadId = 1
         and res_into = "\<lparr>status = 200, data = JStr ''/threads/1/into'', response_headers = []\<rparr>"
         and res_out = "\<lparr>status = 200, data = JStr ''/threads/1/out'', response_headers = []\<rparr>"
         and res_over = "\<lparr>status = 200, data = JStr ''/threads/1/over'', response_headers = []\<rparr>"
         and res_resume = "\<lparr>status = 200, data = JStr ''/threads/1/resume'', response_headers = []\<rparr>"
         and res_stop = "\<lparr>status = 200, data = JStr ''/threads/1/stop'', response_headers = []\<rparr>"]
    by (simp add: one dispatch_SDAPI then_data_def)
qed

text \<open>
  C6. The constructor sets the base address to
  \<^verbatim>\<open>https://{hostname}/s/-/dw/debugger/v2_0\<close>, the basic-auth credentials to the
  configured user name and password, and the header \<^verbatim>\<open>x-dw-client-id\<close> to the client
  identifier. A method call returns the object it was called on, and after any sequence
  of calls the instance defaults are those the constructor set.
\<close>

theorem configuration_fixed_at_construction:
  "defaults (http (SDAPI ns cfg)) =
     \<lparr>baseURL = ''https://'' @ hostname cfg @ ''/s/-/dw/debugger/v2_0'',
      auth = \<lparr>auth_username = username cfg, auth_password = password cfg\<rparr>,
      headers = [(''x-dw-client-id'', clientId cfg)]\<rparr>
   \<and> map_of (headers (defaults (http (SDAPI ns cfg)))) ''x-dw-client-id'' = Some (clientId cfg)
   \<and> snd (invoke ns adapter self c) = self
   \<and> after_calls ns adapter (SDAPI ns cfg) cs = SDAPI ns cfg
   \<and> defaults (http (after_calls ns adapter (SDAPI ns cfg) cs)) =
     \<lparr>baseURL = ''https://'' @ hostname cfg @ ''/s/-/dw/debugger/v2_0'',
      auth = \<lparr>auth_username = username cfg, auth_password = password cfg\<rparr>,
      headers = [(''x-dw-client-id'', clientId cfg)]\<rparr>"
  by (simp add: SDAPI_defaults invoke_self after_calls_self)

text \<open>
  C7. A successful exchange goes through the interception point unchanged: the request
  settles to the response as the transport gave it. Each operation that returns a
  payload then resolves to the body of that response and nothing else of it.
\<close>

theorem success_unwraps_payload:
  "(adapter (defaults (http (SDAPI ns cfg))) req = Inr res \<longrightarrow>
      dispatch adapter (http (SDAPI ns cfg)) req = Resolved res)
   \<and> (adapter (defaults (http (SDAPI ns cfg))) getBreakpoints_request = Inr res \<longrightarrow>
      getBreakpoints adapter (SDAPI ns cfg) = Resolved (data res))
   \<and> (adapter (defaults (http (SDAPI ns cfg))) (createBreakpoints_request b) = Inr res \<longrightarrow>
      createBreakpoints adapter (SDAPI ns cfg) b = Resolved (data res))
   \<and> (adapter (defaults (http (SDAPI ns cfg))) (getBreakpoint_request ns i) = Inr res \<longrightarrow>
      getBreakpoint ns adapter (SDAPI ns cfg) i = Resolved (data res))
   \<and> (adapter (defaults (http (SDAPI ns cfg))) getScriptThreads_request = Inr res \<longrightarrow>
      getScriptThreads adapter (SDAPI ns cfg) = Resolved (data res))
   \<and> (adapter (defaults (http (SDAPI ns cfg))) (getScriptThread_request ns i) = Inr res \<longrightarrow>
      getScriptThread ns adapter (SDAPI ns cfg) i = Resolved (data res))
   \<and> (adapter (defaults (http (SDAPI ns cfg))) (evaluateExpression_request ns t f e) = Inr res \<longrightarrow>
      evaluateExpression ns adapter (SDAPI ns cfg) t f e = Resolved (data res))
   \<and> (adapter (defaults (http (SDAPI ns cfg))) (getObjectMembers_request ns t f p s c) = Inr res \<longrightarrow>
      getObjectMembers ns adapter (SDAPI ns cfg) t f p s c = Resolved (data res))
   \<and> (adapter (defaults (http (SDAPI ns cfg))) (getVariables_request ns t f s c) = Inr res \<longrightarrow>
      getVariables ns adapter (SDAPI ns cfg) t f s c = Resolved (data res))
   \<and> (adapter (defaults (http (SDAPI ns cfg))) (step_request ns t Into) = Inr res \<longrightarrow>
      stepInto ns adapter (SDAPI ns cfg) t = Resolved (data res))
   \<and> (adapter (defaults (http (SDAPI ns cfg))) (step_request ns t Out) = Inr res \<longrightarrow>
      stepOut ns adapter (SDAPI ns cfg) t = Resolved (data res))
   \<and> (adapter (defaults (http (SDAPI ns cfg))) (step_request ns t Over) = Inr res \<longrightarrow>
      stepOver ns adapter (SDAPI ns cfg) t = Resolved (data res))
   \<and> (adapter (defaults (http (SDAPI ns cfg))) (step_request ns t Resume) = Inr res \<longrightarrow>
      stepResume ns adapter (SDAPI ns cfg) t = Resolved (data res))
   \<and> (adapter (defaults (http (SDAPI ns cfg))) (step_request ns t Stop) = Inr res \<longrightarrow>
      stepStop ns adapter (SDAPI ns cfg) t = Resolved (data res))"
  by (simp add: dispatch_success then_data_def getBreakpoints_def createBreakpoints_def
      getBreakpoint_def getScriptThreads_def getScriptThread_def evaluateExpression_def
      getObjectMembers_def getVariables_def step_def stepInto_def stepOut_def stepOver_def
      stepResume_def stepStop_def)

theorem success_unwraps_payload_witness:
  "(\<lambda>d r. Inr \<lparr>status = 200,
               data = JObj [(''id'', JNum 1), (''line_number'', JNum 1),
                            (''script_path'', JStr ''/'')],
               response_headers = []\<rparr> :: axios_error + response)
     (defaults (http (SDAPI decimal
        \<lparr>hostname = ''localhost'', username = ''username'', password = ''password'',
         clientId = ''TestSDAPI''\<rparr>)))
     (getBreakpoint_request decimal 1)
   = Inr \<lparr>status = 200,
          data = JObj [(''id'', JNum 1), (''line_number'', JNum 1),
                       (''script_path'', JStr ''/'')],
          response_headers = []\<rparr>
   \<and> getBreakpoint decimal
       (\<lambda>d r. Inr \<lparr>status = 200,
                 data = JObj [(''id'', JNum 1), (''line_number'', JNum 1),
                              (''script_path'', JStr ''/'')],
                 response_headers = []\<rparr>)
       (SDAPI decimal
          \<lparr>hostname = ''localhost'', username = ''username'', password = ''password'',
           clientId = ''TestSDAPI''\<rparr>) 1
     = Resolved (JObj [(''id'', JNum 1), (''line_number'', JNum 1),
                       (''script_path'', JStr ''/'')])
   \<and> evaluateExpression decimal
       (\<lambda>d r. Inr \<lparr>status = 200,
                 data = JObj [(''id'', JNum 1), (''line_number'', JNum 1),
                              (''script_path'', JStr ''/'')],
                 response_headers = []\<rparr>)
       (SDAPI decimal
          \<lparr>hostname = ''localhost'', username = ''username'', password = ''password'',
           clientId = ''TestSDAPI''\<rparr>) 1 0 ''calculate()''
     = Resolved (JObj [(''id'', JNum 1), (''line_number'', JNum 1),
                       (''script_path'', JStr ''/'')])"
  using success_unwraps_payload
    [where adapter = "\<lambda>d r. Inr \<lparr>status = 200,
                 data = JObj [(''id'', JNum 1), (''line_number'', JNum 1),
                              (''script_path'', JStr ''/'')],
                 response_headers = []\<rparr>"
       and ns = decimal
       and cfg = "\<lparr>hostname = ''localhost'', username = ''username'',
                   password = ''password'', clientId = ''TestSDAPI''\<rparr>"
       and req = "getBreakpoint_request decimal 1"
       and res = "\<lparr>status = 200,
                 data = JObj [(''id'', JNum 1), (''line_number'', JNum 1),
                              (''script_path'', JStr ''/'')],
                 response_headers = []\<rparr>"
       and b = JNull and i = 1 and t = 1 and f = 0 and e = "''calculate()''"
       and p = None and s = None and c = None]
  by simp



text \<open>
  C9. For every thread identifier and frame index, \<open>getObjectMembers\<close> called with the
  empty string as \<open>objectPath\<close> builds the request it builds without \<open>objectPath\<close>: its
  query parameters are \<open>start\<close> and \<open>count\<close> and no others.
\<close>

theorem empty_object_path_omitted:
  "getObjectMembers_request ns threadId frameIndex (Some []) start count =
     getObjectMembers_request ns threadId frameIndex None start count
   \<and> params (getObjectMembers_request ns threadId frameIndex (Some []) start count) =
     Some [(''start'', JNum (default_to 0 start)), (''count'', JNum (default_to 200 count))]
   \<and> getObjectMembers ns adapter self threadId frameIndex (Some []) start count =
     getObjectMembers ns adapter self threadId frameIndex None start count"
  by (simp add: getObjectMembers_def getObjectMembers_request_def getObjectMembers_params_def)

text \<open>
  C10. The five operations without a payload resolve, when the exchange succeeds, to the
  response object itself, with its status and headers: \<open>createClient\<close>, \<open>deleteClient\<close>,
  \<open>removeBreakpoints\<close>, \<open>removeBreakpoint\<close> and \<open>resetScriptThreads\<close>.
\<close>

theorem no_payload_operations_resolve_to_response:
  "(adapter (defaults (http (SDAPI ns cfg))) createClient_request = Inr res \<longrightarrow>
      createClient adapter (SDAPI ns cfg) = Resolved res)
   \<and> (adapter (defaults (http (SDAPI ns cfg))) deleteClient_request = Inr res \<longrightarrow>
      deleteClient adapter (SDAPI ns cfg) = Resolved res)
   \<and> (adapter (defaults (http (SDAPI ns cfg))) removeBreakpoints_request = Inr res \<longrightarrow>
      removeBreakpoints adapter (SDAPI ns cfg) = Resolved res)
   \<and> (adapter (defaults (http (SDAPI ns cfg))) (removeBreakpoint_request ns i) = Inr res \<longrightarrow>
      removeBreakpoint ns adapter (SDAPI ns cfg) i = Resolved res)
   \<and> (adapter (defaults (http (SDAPI ns cfg))) resetScriptThreads_request = Inr res \<longrightarrow>
      resetScriptThreads adapter (SDAPI ns cfg) = Resolved res)"
  by (simp add: dispatch_success createClient_def deleteClient_def removeBreakpoints_def
      removeBreakpoint_def resetScriptThreads_def)

theorem no_payload_operations_resolve_to_response_witness:
  "(\<lambda>d r. Inr \<lparr>status = 204, data = JUndefined, response_headers = []\<rparr>
       :: axios_error + response)
     (defaults (http (SDAPI decimal
        \<lparr>hostname = ''localhost'', username = ''username'', password = ''password'',
         clientId = ''TestSDAPI''\<rparr>)))
     createClient_request
   = Inr \<lparr>status = 204, data = JUndefined, response_headers = []\<rparr>
   \<and> createClient
       (\<lambda>d r. Inr \<lparr>status = 204, data = JUndefined, response_headers = []\<rparr>)
       (SDAPI decimal
          \<lparr>hostname = ''localhost'', username = ''username'', password = ''password'',
           clientId = ''TestSDAPI''\<rparr>)
     = Resolved \<lparr>status = 204, data = JUndefined, response_headers = []\<rparr>
   \<and> removeBreakpoint decimal
       (\<lambda>d r. Inr \<lparr>status = 204, data = JUndefined, response_headers = []\<rparr>)
       (SDAPI decimal
          \<lparr>hostname = ''localhost'', username = ''username'', password = ''password'',
           clientId = ''TestSDAPI''\<rparr>) 1
     = Resolved \<lparr>status = 204, data = JUndefined, response_headers = []\<rparr>"
  using no_payload_operations_resolve_to_response
    [where adapter = "\<lambda>d r. Inr \<lparr>status = 204, data = JUndefined, response_headers = []\<rparr>"
       and ns = decimal
       and cfg = "\<lparr>hostname = ''localhost'', username = ''username'',
                   password = ''password'', clientId = ''TestSDAPI''\<rparr>"
       and res = "\<lparr>status = 204, data = JUndefined, response_headers = []\<rparr>"
       and i = 1]
  by simp

end
